theory Spec2Isabelle
  imports Main "HOL-Library.Word" "HOL-Library.AList"
begin

section \<open>The Lua values and the Lua stack seen by the binding\<close>

text \<open>
  \<^verbatim>\<open>lua_saml.c\<close> is a set of \<^verbatim>\<open>lua_CFunction\<close>s: each one reads its arguments from the Lua
  stack, calls libxml2, xmlsec or the \<^verbatim>\<open>saml_*\<close> functions of \<^verbatim>\<open>saml.h\<close>, pushes its
  results and returns how many of them there are. A pointer is a natural number and
  \<^verbatim>\<open>NULL\<close> is 0; the module hands out light userdata only, and \<open>LUserdata\<close> is one.
  A number is an integer-valued Lua number, and how Lua prints it is a parameter;
  tables carry no metatable and are association lists, a key bound to \<^verbatim>\<open>nil\<close> being
  absent.
\<close>

type_synonym ptr = nat

abbreviation (input) NULL :: ptr where
  "NULL \<equiv> 0"

datatype lua_value =
    LNil
  | LBool bool
  | LNum int
  | LStr string
  | LUserdata ptr
  | LTable "(lua_value \<times> lua_value) list"

text \<open>
  \<^verbatim>\<open>luaL_argerror(L, narg, extramsg)\<close> (also reached through \<^verbatim>\<open>luaL_argcheck\<close>,
  \<^verbatim>\<open>luaL_checktype\<close> and \<^verbatim>\<open>luaL_checklstring\<close>) leaves the C function by a long jump;
  \<open>RuntimeError\<close> is any other error raised by the Lua core.
\<close>

datatype lua_error = ArgError nat string | RuntimeError string

datatype key_format = xmlSecKeyDataFormatPem | xmlSecKeyDataFormatCertPem

text \<open>\<^verbatim>\<open>saml_doc_opts_t\<close> and \<^verbatim>\<open>saml_attr_t\<close> of \<^verbatim>\<open>saml.h\<close>, with the fields the binding
  reads and writes; a \<^verbatim>\<open>NULL\<close> string is \<open>None\<close>. The count \<^verbatim>\<open>num_values\<close> is the length of
  the array \<^verbatim>\<open>values\<close> (here \<open>attr_values\<close>) points to.\<close>

record saml_doc_opts_t =
  id_attr :: "string option"
  insert_after_ns :: "string option"
  insert_after_el :: "string option"

record saml_attr_t =
  name :: "string option"
  attr_values :: "string option list"

definition num_values :: "saml_attr_t \<Rightarrow> nat" where
  "num_values a = length (attr_values a)"

text \<open>The calls into the libraries that create, change or release a resource, in the
  order in which a binding function makes them, each with what it returned.\<close>

datatype event =
    Call_xmlReadMemory string int ptr
  | Call_xmlReadFile string ptr
  | Call_xmlDocDumpMemory ptr
  | Call_xmlFreeDoc ptr
  | Call_xmlSecKeysMngrCreate ptr
  | Call_xmlSecCryptoAppDefaultKeysMngrInit ptr int
  | Call_xmlSecCryptoAppDefaultKeysMngrAdoptKey ptr ptr int
  | Call_xmlSecKeysMngrDestroy ptr
  | Call_saml_free_attrs
  | Call_saml_sign_doc ptr ptr ptr saml_doc_opts_t int
  | Call_saml_verify_binary ptr ptr string string int
  | Call_saml_verify_doc ptr ptr "string option" int

text \<open>What the libraries answer is a parameter of the model. A function whose answer
  depends on what happened before takes the calls made so far.\<close>

record env =
  lua_number2str :: "int \<Rightarrow> string"
  xmlReadMemory :: "string \<Rightarrow> int \<Rightarrow> ptr"
  xmlReadFile :: "string \<Rightarrow> ptr"
  xmlDocDumpMemory :: "event list \<Rightarrow> ptr \<Rightarrow> string"
  xmlSecCryptoAppKeyLoadMemory :: "string \<Rightarrow> nat \<Rightarrow> key_format \<Rightarrow> ptr"
  xmlSecCryptoAppKeyLoad :: "string \<Rightarrow> key_format \<Rightarrow> ptr"
  xmlSecKeysMngrCreate :: "ptr"
  xmlSecCryptoAppDefaultKeysMngrInit :: "ptr \<Rightarrow> int"
  xmlSecCryptoAppDefaultKeysMngrAdoptKey :: "event list \<Rightarrow> ptr \<Rightarrow> ptr \<Rightarrow> int"
  xmlSecTransformIdsGet :: "(string \<times> ptr) list"
  saml_doc_attrs :: "ptr \<Rightarrow> int \<times> saml_attr_t list"
  saml_sign_doc :: "ptr \<Rightarrow> ptr \<Rightarrow> ptr \<Rightarrow> saml_doc_opts_t \<Rightarrow> int"
  saml_verify_binary :: "ptr \<Rightarrow> ptr \<Rightarrow> string \<Rightarrow> string \<Rightarrow> int"
  saml_verify_doc :: "ptr \<Rightarrow> ptr \<Rightarrow> string option \<Rightarrow> int"

record lua_State =
  stack :: "lua_value list"
  calls :: "event list"

type_synonym 'a lua = "lua_State \<Rightarrow> (lua_error + 'a) \<times> lua_State"

definition ret :: "'a \<Rightarrow> 'a lua" where
  "ret x s = (Inr x, s)"

definition raise :: "lua_error \<Rightarrow> 'a lua" where
  "raise e s = (Inl e, s)"

definition bnd :: "'a lua \<Rightarrow> ('a \<Rightarrow> 'b lua) \<Rightarrow> 'b lua" where
  "bnd m f s = (case m s of (Inl e, s') \<Rightarrow> (Inl e, s') | (Inr x, s') \<Rightarrow> f x s')"

definition seq :: "unit lua \<Rightarrow> 'b lua \<Rightarrow> 'b lua" where
  "seq m k = bnd m (\<lambda>_. k)"

definition log :: "event \<Rightarrow> unit lua" where
  "log e s = (Inr (), s\<lparr>calls := calls s @ [e]\<rparr>)"

definition get_calls :: "event list lua" where
  "get_calls s = (Inr (calls s), s)"

subsection \<open>The stack\<close>

text \<open>Index 1 is the bottom of the frame and \<open>-1\<close> its top; an index above the top is
  \<^verbatim>\<open>LUA_TNONE\<close>, here \<open>None\<close>.\<close>

definition abs_index :: "lua_value list \<Rightarrow> int \<Rightarrow> nat" where
  "abs_index st i = (if 0 < i then nat i else nat (int (length st) + i + 1))"

definition index2adr :: "lua_value list \<Rightarrow> int \<Rightarrow> lua_value option" where
  "index2adr st i =
     (let n = abs_index st i
      in if 1 \<le> n \<and> n \<le> length st then Some (st ! (n - 1)) else None)"

definition lua_settop :: "int \<Rightarrow> unit lua" where
  "lua_settop idx s =
     (let st = stack s;
          n = (if 0 \<le> idx then nat idx else nat (int (length st) + idx + 1))
      in (Inr (), s\<lparr>stack := take n st @ replicate (n - length st) LNil\<rparr>))"

definition lua_pop :: "nat \<Rightarrow> unit lua" where
  "lua_pop n = lua_settop (- int n - 1)"

definition push :: "lua_value \<Rightarrow> unit lua" where
  "push v s = (Inr (), s\<lparr>stack := stack s @ [v]\<rparr>)"

definition lua_pushnil :: "unit lua" where
  "lua_pushnil = push LNil"

definition lua_pushboolean :: "int \<Rightarrow> unit lua" where
  "lua_pushboolean b = push (LBool (b \<noteq> 0))"

definition lua_pushinteger :: "int \<Rightarrow> unit lua" where
  "lua_pushinteger n = push (LNum n)"

definition lua_pushstring :: "string \<Rightarrow> unit lua" where
  "lua_pushstring str = push (LStr str)"

definition lua_pushlstring :: "string \<Rightarrow> unit lua" where
  "lua_pushlstring str = push (LStr str)"

definition lua_pushlightuserdata :: "ptr \<Rightarrow> unit lua" where
  "lua_pushlightuserdata p = push (LUserdata p)"

definition lua_newtable :: "unit lua" where
  "lua_newtable = push (LTable [])"

definition lua_touserdata :: "int \<Rightarrow> ptr lua" where
  "lua_touserdata idx s =
     (Inr (case index2adr (stack s) idx of Some (LUserdata p) \<Rightarrow> p | _ \<Rightarrow> NULL), s)"

definition lua_isnil :: "int \<Rightarrow> bool lua" where
  "lua_isnil idx s = (Inr (index2adr (stack s) idx = Some LNil), s)"

definition lua_isnone :: "int \<Rightarrow> bool lua" where
  "lua_isnone idx s = (Inr (index2adr (stack s) idx = None), s)"

definition lua_isnoneornil :: "int \<Rightarrow> bool lua" where
  "lua_isnoneornil idx s =
     (Inr (index2adr (stack s) idx = None \<or> index2adr (stack s) idx = Some LNil), s)"

definition luaL_argcheck :: "bool \<Rightarrow> nat \<Rightarrow> string \<Rightarrow> unit lua" where
  "luaL_argcheck cond narg extramsg = (if cond then ret () else raise (ArgError narg extramsg))"

text \<open>\<^verbatim>\<open>luaL_typerror(L, narg, tname)\<close> is the argument error \<^verbatim>\<open>tname expected, got\<close>
  followed by the name of the type of the value at \<open>narg\<close>.\<close>

definition lua_typename :: "lua_value option \<Rightarrow> string" where
  "lua_typename v =
     (case v of
        None \<Rightarrow> ''no value''
      | Some LNil \<Rightarrow> ''nil''
      | Some (LBool b) \<Rightarrow> ''boolean''
      | Some (LNum n) \<Rightarrow> ''number''
      | Some (LStr str) \<Rightarrow> ''string''
      | Some (LUserdata p) \<Rightarrow> ''userdata''
      | Some (LTable t) \<Rightarrow> ''table'')"

definition luaL_typerror :: "nat \<Rightarrow> string \<Rightarrow> 'a lua" where
  "luaL_typerror narg tname s =
     (Inl (ArgError narg
             (tname @ '' expected, got '' @ lua_typename (index2adr (stack s) (int narg)))), s)"

definition luaL_checktype_table :: "nat \<Rightarrow> unit lua" where
  "luaL_checktype_table narg s =
     (case index2adr (stack s) (int narg) of
        Some (LTable t) \<Rightarrow> (Inr (), s)
      | _ \<Rightarrow> luaL_typerror narg ''table'' s)"

text \<open>\<^verbatim>\<open>luaL_checklstring\<close> accepts a string or a number, which it converts in place, and
  raises on anything else. With a length pointer the caller gets all the bytes; with
  \<^verbatim>\<open>NULL\<close> for it the caller reads a C string, which ends at the first zero byte.\<close>

definition luaL_checklstring :: "env \<Rightarrow> nat \<Rightarrow> string lua" where
  "luaL_checklstring E narg s =
     (case index2adr (stack s) (int narg) of
        Some (LStr str) \<Rightarrow> (Inr str, s)
      | Some (LNum n) \<Rightarrow>
          (Inr (lua_number2str E n),
           s\<lparr>stack := (stack s)[narg - 1 := LStr (lua_number2str E n)]\<rparr>)
      | _ \<Rightarrow> luaL_typerror narg ''string'' s)"

definition c_str :: "string \<Rightarrow> string" where
  "c_str str = takeWhile (\<lambda>c. c \<noteq> CHR 0x00) str"

definition luaL_checkstring :: "env \<Rightarrow> nat \<Rightarrow> string lua" where
  "luaL_checkstring E narg = bnd (luaL_checklstring E narg) (\<lambda>str. ret (c_str str))"

text \<open>A \<^verbatim>\<open>size_t\<close> length passed where the callee takes an \<^verbatim>\<open>int\<close>.\<close>

definition size_to_int :: "nat \<Rightarrow> int" where
  "size_to_int n = sint (word_of_nat n :: 32 word)"

subsection \<open>Tables\<close>

text \<open>Storing \<^verbatim>\<open>nil\<close> under a key removes the key; reading an absent key gives \<^verbatim>\<open>nil\<close>.\<close>

definition tbl_get :: "(lua_value \<times> lua_value) list \<Rightarrow> lua_value \<Rightarrow> lua_value" where
  "tbl_get t k = (case map_of t k of None \<Rightarrow> LNil | Some v \<Rightarrow> v)"

definition tbl_set ::
  "(lua_value \<times> lua_value) list \<Rightarrow> lua_value \<Rightarrow> lua_value \<Rightarrow> (lua_value \<times> lua_value) list" where
  "tbl_set t k v = (if v = LNil then AList.delete k t else AList.update k v t)"

text \<open>\<^verbatim>\<open>lua_objlen\<close> of a table is a border of it: an \<open>n\<close> with \<open>t[n+1] = nil\<close> and, when
  \<open>n > 0\<close>, \<open>t[n] \<noteq> nil\<close>. A sequence has one border, its length; for a table with holes
  the model takes the first one.\<close>

primrec border :: "(lua_value \<times> lua_value) list \<Rightarrow> nat \<Rightarrow> nat \<Rightarrow> nat" where
  "border t n 0 = n"
| "border t n (Suc fuel) =
     (if tbl_get t (LNum (int n + 1)) = LNil then n else border t (Suc n) fuel)"

definition lua_objlen :: "env \<Rightarrow> int \<Rightarrow> nat lua" where
  "lua_objlen E idx s =
     (Inr (case index2adr (stack s) idx of
             Some (LTable t) \<Rightarrow> border t 0 (length t)
           | Some (LStr str) \<Rightarrow> length str
           | Some (LNum n) \<Rightarrow> length (lua_number2str E n)
           | _ \<Rightarrow> 0), s)"

definition lua_getfield :: "int \<Rightarrow> string \<Rightarrow> unit lua" where
  "lua_getfield idx k s =
     (case index2adr (stack s) idx of
        Some (LTable t) \<Rightarrow> push (tbl_get t (LStr k)) s
      | _ \<Rightarrow> (Inl (RuntimeError ''attempt to index a non-table value''), s))"

definition lua_rawgeti :: "int \<Rightarrow> int \<Rightarrow> unit lua" where
  "lua_rawgeti idx n s =
     (case index2adr (stack s) idx of
        Some (LTable t) \<Rightarrow> push (tbl_get t (LNum n)) s
      | _ \<Rightarrow> (Inl (RuntimeError ''table expected''), s))"

text \<open>\<^verbatim>\<open>lua_settable(L, idx)\<close>: \<open>t[k] = v\<close> for the table at \<open>idx\<close>, the value \<open>v\<close> on top of
  the stack and the key \<open>k\<close> below it; both are popped.\<close>

definition lua_settable :: "int \<Rightarrow> unit lua" where
  "lua_settable idx s =
     (let st = stack s; n = length st
      in if n < 2 then (Inl (RuntimeError ''stack underflow''), s)
         else case index2adr st idx of
                Some (LTable t) \<Rightarrow>
                  if st ! (n - 2) = LNil then (Inl (RuntimeError ''table index is nil''), s)
                  else (Inr (), s\<lparr>stack := take (n - 2)
                          (st[abs_index st idx - 1 := LTable (tbl_set t (st ! (n - 2)) (st ! (n - 1)))])\<rparr>)
              | _ \<Rightarrow> (Inl (RuntimeError ''attempt to index a non-table value''), s))"

subsection \<open>Calling a C function from Lua\<close>

text \<open>The arguments are the initial stack; the function returns the number \<open>n\<close> of its
  results, which are the \<open>n\<close> values on top of the stack, or it raises.\<close>

datatype outcome = Raise lua_error | Return "lua_value list"

definition call :: "nat lua \<Rightarrow> lua_value list \<Rightarrow> outcome \<times> event list" where
  "call f args =
     (case f \<lparr>stack = args, calls = []\<rparr> of
        (Inl e, s) \<Rightarrow> (Raise e, calls s)
      | (Inr n, s) \<Rightarrow> (Return (drop (length (stack s) - n) (stack s)), calls s))"

section \<open>Parsing\<close>

definition parse :: "env \<Rightarrow> nat lua" where
  "parse E =
     seq (lua_settop 1) (
     bnd (luaL_checklstring E 1) (\<lambda>buf.
     seq (lua_pop 1) (
     let doc = xmlReadMemory E buf (size_to_int (length buf)) in
     seq (log (Call_xmlReadMemory buf (size_to_int (length buf)) doc)) (
     if doc = NULL then seq lua_pushnil (ret 1)
     else seq (lua_pushlightuserdata doc) (ret 1)))))"

definition parse_file :: "env \<Rightarrow> nat lua" where
  "parse_file E =
     seq (lua_settop 1) (
     bnd (luaL_checkstring E 1) (\<lambda>filename.
     seq (lua_pop 1) (
     let doc = xmlReadFile E filename in
     seq (log (Call_xmlReadFile filename doc)) (
     if doc = NULL then seq lua_pushnil (ret 1)
     else seq (lua_pushlightuserdata doc) (ret 1)))))"

section \<open>The attributes of the assertion\<close>

text \<open>The inner loop of \<^verbatim>\<open>attrs\<close>, \<^verbatim>\<open>for (j = 0; j < num_values; j++)\<close>, over the entries of
  \<^verbatim>\<open>values\<close> from index \<open>j\<close> on; the list under construction is on top of the stack.\<close>

primrec attrs_values_loop :: "string option list \<Rightarrow> nat \<Rightarrow> unit lua" where
  "attrs_values_loop [] j = ret ()"
| "attrs_values_loop (v # vs) j =
     seq (lua_pushinteger (int j + 1)) (
     seq (case v of None \<Rightarrow> lua_pushnil | Some str \<Rightarrow> lua_pushstring str) (
     seq (lua_settable (- 3)) (
     attrs_values_loop vs (Suc j))))"

definition attrs_push_value :: "saml_attr_t \<Rightarrow> unit lua" where
  "attrs_push_value a =
     (if num_values a = 0 then lua_pushnil
      else if num_values a = 1 then
        (case attr_values a ! 0 of None \<Rightarrow> lua_pushnil | Some str \<Rightarrow> lua_pushstring str)
      else seq lua_newtable (attrs_values_loop (attr_values a) 0))"

text \<open>The outer loop, \<^verbatim>\<open>for (i = 0; i < attrs_len; i++)\<close>, over the array \<^verbatim>\<open>attrs\<close>.\<close>

primrec attrs_loop :: "saml_attr_t list \<Rightarrow> unit lua" where
  "attrs_loop [] = ret ()"
| "attrs_loop (a # as) =
     seq (case name a of
            None \<Rightarrow> ret ()
          | Some nm \<Rightarrow>
              seq (lua_pushstring nm) (
              seq (attrs_push_value a) (
              lua_settable (- 3)))) (
     attrs_loop as)"

definition attrs :: "env \<Rightarrow> nat lua" where
  "attrs E =
     seq (lua_settop 1) (
     bnd (lua_touserdata 1) (\<lambda>doc.
     seq (luaL_argcheck (doc \<noteq> NULL) 1 ''`xmlDoc*' expected'') (
     seq (lua_pop 1) (
     case saml_doc_attrs E doc of (rc, as) \<Rightarrow>
       if rc < 0 then seq lua_pushnil (ret 1)
       else
         seq lua_newtable (
         seq (attrs_loop as) (
         seq (log Call_saml_free_attrs) (
         ret 1)))))))"

section \<open>Keys, certificates and the keys manager\<close>

definition load_key :: "env \<Rightarrow> nat lua" where
  "load_key E =
     seq (lua_settop 1) (
     bnd (luaL_checklstring E 1) (\<lambda>key_data.
     seq (lua_pop 1) (
     let key = xmlSecCryptoAppKeyLoadMemory E key_data (length key_data) xmlSecKeyDataFormatPem in
     if key = NULL then seq lua_pushnil (ret 1)
     else seq (lua_pushlightuserdata key) (ret 1))))"

definition load_cert :: "env \<Rightarrow> nat lua" where
  "load_cert E =
     seq (lua_settop 1) (
     bnd (luaL_checklstring E 1) (\<lambda>cert_data.
     seq (lua_pop 1) (
     let cert = xmlSecCryptoAppKeyLoadMemory E cert_data (length cert_data)
                  xmlSecKeyDataFormatCertPem in
     seq (lua_pushlightuserdata cert) (ret 1))))"

definition load_cert_file :: "env \<Rightarrow> nat lua" where
  "load_cert_file E =
     seq (lua_settop 1) (
     bnd (luaL_checkstring E 1) (\<lambda>cert_file.
     seq (lua_pop 1) (
     let cert = xmlSecCryptoAppKeyLoad E cert_file xmlSecKeyDataFormatCertPem in
     if cert = NULL then seq lua_pushnil (ret 1)
     else seq (lua_pushlightuserdata cert) (ret 1))))"

text \<open>The loop of \<^verbatim>\<open>create_keys_mngr\<close>, \<^verbatim>\<open>for (i = 1; i < len + 1; i++)\<close>, over the indices
  still to visit (\<open>len\<close> is the length of a table and \<open>len + 1\<close> does not wrap). It
  answers \<open>Some n\<close> when the body returned \<open>n\<close> results from the function, and \<open>None\<close>
  when it ran to its end.\<close>

primrec create_keys_mngr_loop :: "env \<Rightarrow> ptr \<Rightarrow> nat list \<Rightarrow> nat option lua" where
  "create_keys_mngr_loop E mngr [] = ret None"
| "create_keys_mngr_loop E mngr (i # is) =
     seq (lua_rawgeti 1 (int i)) (
     bnd (lua_touserdata 2) (\<lambda>key.
     seq (luaL_argcheck (key \<noteq> NULL) 2 ''`xmlSecKey*' expected'') (
     bnd get_calls (\<lambda>before.
     let res = xmlSecCryptoAppDefaultKeysMngrAdoptKey E before mngr key in
     seq (log (Call_xmlSecCryptoAppDefaultKeysMngrAdoptKey mngr key res)) (
     if res \<noteq> 0 then
       seq (log (Call_xmlSecKeysMngrDestroy mngr)) (
       seq (lua_pop 2) (
       seq lua_pushnil (
       seq (lua_pushstring ''adopt key failed'') (
       ret (Some 2)))))
     else
       seq (lua_pop 1) (
       create_keys_mngr_loop E mngr is))))))"

definition create_keys_mngr :: "env \<Rightarrow> nat lua" where
  "create_keys_mngr E =
     seq (lua_settop 1) (
     seq (luaL_checktype_table 1) (
     bnd (lua_objlen E 1) (\<lambda>len.
     let mngr = xmlSecKeysMngrCreate E in
     seq (log (Call_xmlSecKeysMngrCreate mngr)) (
     if mngr = NULL then
       seq (lua_pop 1) (
       seq lua_pushnil (
       seq (lua_pushstring ''create keys manager failed'') (
       ret 2)))
     else
       let init = xmlSecCryptoAppDefaultKeysMngrInit E mngr in
       seq (log (Call_xmlSecCryptoAppDefaultKeysMngrInit mngr init)) (
       if init < 0 then
         seq (log (Call_xmlSecKeysMngrDestroy mngr)) (
         seq (lua_pop 1) (
         seq lua_pushnil (
         seq (lua_pushstring ''initialize keys manager failed'') (
         ret 2))))
       else
         bnd (create_keys_mngr_loop E mngr [1 ..< len + 1]) (\<lambda>returned.
         case returned of
           Some n \<Rightarrow> ret n
         | None \<Rightarrow>
             seq (lua_pop 1) (
             seq (lua_pushlightuserdata mngr) (
             seq lua_pushnil (
             ret 2)))))))))"

section \<open>Transforms\<close>

text \<open>Modelled from the spec: \<^verbatim>\<open>xmlSecTransformIdListFindByHref\<close> of xmlsec, an exact string
  match of the href against the fixed table of supported algorithm URIs, which is
  \<^verbatim>\<open>xmlSecTransformIdsGet()\<close> and a parameter here; the first entry that matches is
  taken, and \<^verbatim>\<open>NULL\<close> (\<^verbatim>\<open>xmlSecTransformIdUnknown\<close>) stands for none. The usage mask the
  binding passes has every bit set, so it excludes no entry.\<close>

definition xmlSecTransformIdListFindByHref :: "(string \<times> ptr) list \<Rightarrow> string \<Rightarrow> ptr" where
  "xmlSecTransformIdListFindByHref ids href =
     (case map_of ids href of None \<Rightarrow> NULL | Some transform_id \<Rightarrow> transform_id)"

definition find_transform_by_href :: "env \<Rightarrow> nat lua" where
  "find_transform_by_href E =
     seq (lua_settop 1) (
     bnd (luaL_checkstring E 1) (\<lambda>href.
     seq (lua_pop 1) (
     let transform_id = xmlSecTransformIdListFindByHref (xmlSecTransformIdsGet E) href in
     if transform_id = NULL then seq lua_pushnil (ret 1)
     else seq (lua_pushlightuserdata transform_id) (ret 1))))"

section \<open>Signing\<close>

text \<open>\<^verbatim>\<open>sign_get_opts(L, i, opts)\<close> fills \<^verbatim>\<open>*opts\<close> from the options at index \<open>i\<close> and returns
  the number of stack slots then in use, which its callers pop.\<close>

definition sign_get_opts :: "env \<Rightarrow> nat \<Rightarrow> (nat \<times> saml_doc_opts_t) lua" where
  "sign_get_opts E i =
     (let opts = \<lparr>id_attr = None, insert_after_ns = None, insert_after_el = None\<rparr> in
      bnd (lua_isnil (int i)) (\<lambda>nil.
      if nil then ret (i, opts)
      else
        seq (luaL_checktype_table i) (
        seq (lua_getfield (int i) ''id_attr'') (
        seq (lua_getfield (int i) ''insert_after'') (
        bnd (lua_isnil (int i + 1)) (\<lambda>no_id_attr.
        bnd (if no_id_attr then ret opts
             else bnd (luaL_checkstring E (i + 1)) (\<lambda>str. ret (opts\<lparr>id_attr := Some str\<rparr>)))
          (\<lambda>opts.
        bnd (lua_isnil (int i + 2)) (\<lambda>no_insert_after.
        if no_insert_after then ret (i + 2, opts)
        else
          seq (luaL_checktype_table (i + 2)) (
          bnd (lua_objlen E (int i + 2)) (\<lambda>len.
          seq (if len \<noteq> 2
               then raise (ArgError i ''insert_after must be a table of form {namespace, element}'')
               else ret ()) (
          seq (lua_rawgeti (int i + 2) 1) (
          seq (lua_rawgeti (int i + 2) 2) (
          bnd (luaL_checkstring E (i + 3)) (\<lambda>ns.
          bnd (luaL_checkstring E (i + 4)) (\<lambda>el.
          ret (i + 4, opts\<lparr>insert_after_ns := Some ns, insert_after_el := Some el\<rparr>))))))))))))))))"

definition sign_doc :: "env \<Rightarrow> nat lua" where
  "sign_doc E =
     seq (lua_settop 4) (
     bnd (lua_touserdata 1) (\<lambda>key.
     seq (luaL_argcheck (key \<noteq> NULL) 1 ''`xmlSecKey*' expected'') (
     bnd (lua_touserdata 2) (\<lambda>transform_id.
     seq (luaL_argcheck (transform_id \<noteq> NULL) 2 ''`xmlSecTransformId` expected'') (
     bnd (lua_touserdata 3) (\<lambda>doc.
     seq (luaL_argcheck (key \<noteq> NULL) 3 ''`xmlDoc*' expected'') (
     bnd (sign_get_opts E 4) (\<lambda>(n, opts).
     seq (lua_pop n) (
     let res = saml_sign_doc E key transform_id doc opts in
     seq (log (Call_saml_sign_doc key transform_id doc opts res)) (
     if res = 0 then seq lua_pushnil (ret 1)
     else seq (lua_pushstring ''saml sign failed'') (ret 1)))))))))))"

text \<open>In \<^verbatim>\<open>sign_xml\<close> the buffer of \<^verbatim>\<open>xmlDocDumpMemory\<close> is copied to a Lua string and
  freed at once; the model keeps the string only.\<close>

definition sign_xml :: "env \<Rightarrow> nat lua" where
  "sign_xml E =
     seq (lua_settop 4) (
     bnd (lua_touserdata 1) (\<lambda>key.
     seq (luaL_argcheck (key \<noteq> NULL) 1 ''`xmlSecKey*' expected'') (
     bnd (lua_touserdata 2) (\<lambda>transform_id.
     seq (luaL_argcheck (transform_id \<noteq> NULL) 2 ''`xmlSecTransformId` expected'') (
     bnd (luaL_checklstring E 3) (\<lambda>data.
     let doc = xmlReadMemory E data (size_to_int (length data)) in
     seq (log (Call_xmlReadMemory data (size_to_int (length data)) doc)) (
     if doc = NULL then
       seq (lua_settop 0) (
       seq lua_pushnil (
       seq (lua_pushstring ''unable to parse xml string'') (
       ret 2)))
     else
       bnd (sign_get_opts E 4) (\<lambda>(n, opts).
       seq (lua_pop n) (
       let res = saml_sign_doc E key transform_id doc opts in
       seq (log (Call_saml_sign_doc key transform_id doc opts res)) (
       seq (if res = 0 then
              bnd get_calls (\<lambda>before.
              seq (log (Call_xmlDocDumpMemory doc)) (
              seq (lua_pushlstring (xmlDocDumpMemory E before doc)) (
              lua_pushnil)))
            else
              seq lua_pushnil (
              lua_pushstring ''saml sign failed'')) (
       seq (log (Call_xmlFreeDoc doc)) (
       ret 2))))))))))))"

section \<open>Verifying\<close>

text \<open>\<^verbatim>\<open>int res\<close> is not negative where \<^verbatim>\<open>1 - res\<close> is computed, so the subtraction does not
  overflow and an unbounded integer models it.\<close>

definition verify_binary :: "env \<Rightarrow> nat lua" where
  "verify_binary E =
     seq (lua_settop 4) (
     bnd (lua_touserdata 1) (\<lambda>cert.
     seq (luaL_argcheck (cert \<noteq> NULL) 1 ''`xmlSecKey*' expected'') (
     bnd (lua_touserdata 2) (\<lambda>transform_id.
     seq (luaL_argcheck (transform_id \<noteq> NULL) 2 ''`xmlSecTransformId` expected'') (
     bnd (luaL_checklstring E 3) (\<lambda>data.
     bnd (luaL_checklstring E 4) (\<lambda>sig.
     seq (lua_pop 4) (
     let res = saml_verify_binary E cert transform_id data sig in
     seq (log (Call_saml_verify_binary cert transform_id data sig res)) (
     if res < 0 then
       seq lua_pushnil (
       seq (lua_pushstring ''saml verify failed'') (
       ret 2))
     else
       seq (lua_pushboolean (1 - res)) (
       seq lua_pushnil (
       ret 2)))))))))))"

text \<open>\<^verbatim>\<open>verify_doc\<close> sets \<^verbatim>\<open>opts.id_attr\<close> and leaves the other fields of \<^verbatim>\<open>opts\<close> as they
  are on the C stack; \<^verbatim>\<open>saml_verify_doc\<close> is given the one field that is set.\<close>

definition verify_doc :: "env \<Rightarrow> nat lua" where
  "verify_doc E =
     seq (lua_settop 3) (
     bnd (lua_touserdata 1) (\<lambda>mngr.
     seq (luaL_argcheck (mngr \<noteq> NULL) 1 ''`xmlSecKeysMngr*' expected'') (
     bnd (lua_touserdata 2) (\<lambda>doc.
     seq (luaL_argcheck (doc \<noteq> NULL) 2 ''`xmlDoc*' expected'') (
     bnd (lua_isnoneornil 3) (\<lambda>absent.
     bnd (if absent then
            bnd (lua_isnone 3) (\<lambda>none.
            seq (lua_pop (if none then 2 else 3)) (
            ret None))
          else
            seq (luaL_checktype_table 3) (
            seq (lua_getfield 3 ''id_attr'') (
            bnd (luaL_checkstring E 4) (\<lambda>str.
            seq (lua_pop 4) (
            ret (Some str)))))) (\<lambda>opts_id_attr.
     let res = saml_verify_doc E mngr doc opts_id_attr in
     seq (log (Call_saml_verify_doc mngr doc opts_id_attr res)) (
     if res < 0 then
       seq lua_pushnil (
       seq (lua_pushstring ''saml verify failed'') (
       ret 2))
     else
       seq (lua_pushboolean (1 - res)) (
       seq lua_pushnil (
       ret 2))))))))))"

text \<open>Modelled from the spec: \<^verbatim>\<open>saml_verify_binary\<close> of \<^verbatim>\<open>saml.c\<close>, which is not among the
  sources. VerifyBinary has three outcomes: the signature is cryptographically valid,
  it is cryptographically invalid (a mismatch, not an error), or the operation failed
  (malformed key or transform). What the transform decides is the parameter
  \<open>backend\<close>; the outcome is returned to the binding as the \<^verbatim>\<open>int\<close> it tests, negative
  for a failure, 0 for valid and 1 for invalid.\<close>

datatype verdict = Valid | Invalid | Fail

definition saml_verify_binary_spec ::
  "(ptr \<Rightarrow> ptr \<Rightarrow> string \<Rightarrow> string \<Rightarrow> verdict) \<Rightarrow> ptr \<Rightarrow> ptr \<Rightarrow> string \<Rightarrow> string \<Rightarrow> int" where
  "saml_verify_binary_spec backend cert transform_id data sig =
     (case backend cert transform_id data sig of Valid \<Rightarrow> 0 | Invalid \<Rightarrow> 1 | Fail \<Rightarrow> - 1)"

section \<open>Abstractions used in the proofs\<close>

text \<open>What the loops of \<^verbatim>\<open>attrs\<close> leave in the table on top of the stack.\<close>

definition value_or_nil :: "string option \<Rightarrow> lua_value" where
  "value_or_nil v = (case v of None \<Rightarrow> LNil | Some str \<Rightarrow> LStr str)"

primrec fill_values ::
  "string option list \<Rightarrow> nat \<Rightarrow> (lua_value \<times> lua_value) list \<Rightarrow> (lua_value \<times> lua_value) list" where
  "fill_values [] j t = t"
| "fill_values (v # vs) j t = fill_values vs (Suc j) (tbl_set t (LNum (int j + 1)) (value_or_nil v))"

definition attr_value :: "saml_attr_t \<Rightarrow> lua_value" where
  "attr_value a =
     (if num_values a = 0 then LNil
      else if num_values a = 1 then value_or_nil (attr_values a ! 0)
      else LTable (fill_values (attr_values a) 0 []))"

primrec fill_attrs ::
  "saml_attr_t list \<Rightarrow> (lua_value \<times> lua_value) list \<Rightarrow> (lua_value \<times> lua_value) list" where
  "fill_attrs [] t = t"
| "fill_attrs (a # as) t =
     fill_attrs as (case name a of None \<Rightarrow> t | Some nm \<Rightarrow> tbl_set t (LStr nm) (attr_value a))"

text \<open>The keys managers that are alive after a sequence of calls, each with the keys it
  has adopted: xmlsec's \<^verbatim>\<open>xmlSecKeysMngrDestroy\<close> releases a manager together with the
  keys in its store, and a key whose adoption failed stays with the caller.\<close>

fun keys_mngrs_step :: "(ptr \<times> ptr list) list \<Rightarrow> event \<Rightarrow> (ptr \<times> ptr list) list" where
  "keys_mngrs_step ms (Call_xmlSecKeysMngrCreate m) = (if m = NULL then ms else ms @ [(m, [])])"
| "keys_mngrs_step ms (Call_xmlSecCryptoAppDefaultKeysMngrAdoptKey m k res) =
     (if res = 0 then map (\<lambda>(m', ks). if m' = m then (m', ks @ [k]) else (m', ks)) ms else ms)"
| "keys_mngrs_step ms (Call_xmlSecKeysMngrDestroy m) = filter (\<lambda>(m', ks). m' \<noteq> m) ms"
| "keys_mngrs_step ms _ = ms"

definition keys_mngrs_after :: "event list \<Rightarrow> (ptr \<times> ptr list) list" where
  "keys_mngrs_after evs = foldl keys_mngrs_step [] evs"

text \<open>The key at index \<open>i\<close> of the table of keys, as \<^verbatim>\<open>lua_touserdata\<close> reads it, and the
  calls that adopt the keys \<open>ks\<close> into the manager \<open>m\<close> with success.\<close>

definition key_at :: "(lua_value \<times> lua_value) list \<Rightarrow> nat \<Rightarrow> ptr" where
  "key_at t i = (case tbl_get t (LNum (int i)) of LUserdata p \<Rightarrow> p | _ \<Rightarrow> NULL)"

abbreviation adopted :: "ptr \<Rightarrow> ptr list \<Rightarrow> event list" where
  "adopted m ks \<equiv> map (\<lambda>k. Call_xmlSecCryptoAppDefaultKeysMngrAdoptKey m k 0) ks"

text \<open>An environment to run the functions in: no document parses, no key loads, every
  other call succeeds, and the table of transforms has two entries.\<close>

definition env0 :: env where
  "env0 = \<lparr>
     lua_number2str = (\<lambda>n. ''0''),
     xmlReadMemory = (\<lambda>buf size. NULL),
     xmlReadFile = (\<lambda>filename. NULL),
     xmlDocDumpMemory = (\<lambda>before doc. ''<signed/>''),
     xmlSecCryptoAppKeyLoadMemory = (\<lambda>data size format. NULL),
     xmlSecCryptoAppKeyLoad = (\<lambda>filename format. NULL),
     xmlSecKeysMngrCreate = 7,
     xmlSecCryptoAppDefaultKeysMngrInit = (\<lambda>mngr. 0),
     xmlSecCryptoAppDefaultKeysMngrAdoptKey = (\<lambda>before mngr key. 0),
     xmlSecTransformIdsGet =
       [(''http://www.w3.org/2000/09/xmldsig#rsa-sha1'', 11),
        (''http://www.w3.org/2001/04/xmldsig-more#rsa-sha256'', 12)],
     saml_doc_attrs = (\<lambda>doc. (0, [])),
     saml_sign_doc = (\<lambda>key transform_id doc opts. 0),
     saml_verify_binary = (\<lambda>cert transform_id data sig. 0),
     saml_verify_doc = (\<lambda>mngr doc id. 0)
   \<rparr>"

text \<open>The adoption of the key 5 fails; a list of the keys 4, 5 and 6.\<close>

definition env_adopt_fails :: env where
  "env_adopt_fails =
     env0\<lparr>xmlSecCryptoAppDefaultKeysMngrAdoptKey :=
            (\<lambda>before mngr key. if key = 5 then - 1 else 0)\<rparr>"

definition keys456 :: lua_value where
  "keys456 = LTable [(LNum 1, LUserdata 4), (LNum 2, LUserdata 5), (LNum 3, LUserdata 6)]"

text \<open>An assertion with three attributes, and one where a second \<^verbatim>\<open>email\<close> attribute has
  one \<^verbatim>\<open>AttributeValue\<close> child whose text is \<^verbatim>\<open>NULL\<close>.\<close>

definition attr_email :: saml_attr_t where
  "attr_email = \<lparr>name = Some ''email'', attr_values = [Some ''a@b.com'']\<rparr>"

definition attr_groups :: saml_attr_t where
  "attr_groups = \<lparr>name = Some ''groups'', attr_values = [Some ''admin'', Some ''staff'']\<rparr>"

definition attr_none :: saml_attr_t where
  "attr_none = \<lparr>name = Some ''manager'', attr_values = []\<rparr>"

definition attr_email_null :: saml_attr_t where
  "attr_email_null = \<lparr>name = Some ''email'', attr_values = [None]\<rparr>"

definition env_attrs :: env where
  "env_attrs = env0\<lparr>saml_doc_attrs := (\<lambda>doc. (0, [attr_email, attr_groups, attr_none]))\<rparr>"

definition env_attrs_null :: env where
  "env_attrs_null = env0\<lparr>saml_doc_attrs := (\<lambda>doc. (0, [attr_email, attr_email_null]))\<rparr>"

text \<open>Every text parses to the document 9; every document fails to verify with a
  mismatch; a backend that accepts the signature \<^verbatim>\<open>good\<close> only and cannot work without
  one.\<close>

definition env_parses :: env where
  "env_parses = env0\<lparr>xmlReadMemory := (\<lambda>buf size. 9)\<rparr>"

definition env_mismatch :: env where
  "env_mismatch = env0\<lparr>saml_verify_doc := (\<lambda>mngr doc id. 1)\<rparr>"

definition backend0 :: "ptr \<Rightarrow> ptr \<Rightarrow> string \<Rightarrow> string \<Rightarrow> verdict" where
  "backend0 cert transform_id data sig =
     (if sig = ''good'' then Valid else if sig = [] then Fail else Invalid)"

text \<open>A Lua string that is the second URI of the table, a zero byte and three more
  bytes.\<close>

definition href_zero_byte :: string where
  "href_zero_byte =
     ''http://www.w3.org/2001/04/xmldsig-more#rsa-sha256'' @ [CHR 0x00] @ ''xyz''"

section \<open>Unfolding the model\<close>

lemmas monad_defs = ret_def raise_def bnd_def seq_def log_def get_calls_def call_def

lemmas stack_defs = abs_index_def index2adr_def lua_settop_def lua_pop_def push_def
  lua_pushnil_def lua_pushboolean_def lua_pushinteger_def lua_pushstring_def
  lua_pushlstring_def lua_pushlightuserdata_def lua_newtable_def lua_touserdata_def
  lua_isnil_def lua_isnone_def lua_isnoneornil_def luaL_argcheck_def
  lua_typename_def luaL_typerror_def
  luaL_checktype_table_def luaL_checklstring_def luaL_checkstring_def
  lua_objlen_def lua_getfield_def lua_rawgeti_def lua_settable_def

section \<open>Parsing never raises on a string\<close>

lemma parse_string:
  "call (parse E) [LStr buf] =
     (let doc = xmlReadMemory E buf (size_to_int (length buf))
      in (Return [if doc = NULL then LNil else LUserdata doc],
          [Call_xmlReadMemory buf (size_to_int (length buf)) doc]))"
  by (simp add: parse_def monad_defs stack_defs Let_def)

lemma parse_file_string:
  "call (parse_file E) [LStr filename] =
     (let doc = xmlReadFile E (c_str filename)
      in (Return [if doc = NULL then LNil else LUserdata doc],
          [Call_xmlReadFile (c_str filename) doc]))"
  by (simp add: parse_file_def monad_defs stack_defs Let_def)

text \<open>
  C9. libxml2 reports a text it cannot parse by returning \<^verbatim>\<open>NULL\<close> from \<^verbatim>\<open>xmlReadMemory\<close>
  and \<^verbatim>\<open>xmlReadFile\<close>. For every byte string, \<^verbatim>\<open>parse\<close> returns one value, \<^verbatim>\<open>nil\<close> when
  the parser returned \<^verbatim>\<open>NULL\<close> and the document handle otherwise, and \<^verbatim>\<open>parse_file\<close> does
  the same for every file name; neither raises.
\<close>

theorem parse_returns_nil_or_document:
  "fst (call (parse E) [LStr buf]) =
     Return [if xmlReadMemory E buf (size_to_int (length buf)) = NULL then LNil
             else LUserdata (xmlReadMemory E buf (size_to_int (length buf)))]
   \<and> fst (call (parse_file E) [LStr filename]) =
     Return [if xmlReadFile E (c_str filename) = NULL then LNil
             else LUserdata (xmlReadFile E (c_str filename))]"
  by (simp add: parse_string parse_file_string Let_def)

section \<open>Loading a certificate\<close>

lemma load_key_string:
  "call (load_key E) [LStr data] =
     (let key = xmlSecCryptoAppKeyLoadMemory E data (length data) xmlSecKeyDataFormatPem
      in (Return [if key = NULL then LNil else LUserdata key], []))"
  by (simp add: load_key_def monad_defs stack_defs Let_def)

lemma load_cert_file_string:
  "call (load_cert_file E) [LStr filename] =
     (let cert = xmlSecCryptoAppKeyLoad E (c_str filename) xmlSecKeyDataFormatCertPem
      in (Return [if cert = NULL then LNil else LUserdata cert], []))"
  by (simp add: load_cert_file_def monad_defs stack_defs Let_def)

lemma load_cert_string:
  "call (load_cert E) [LStr data] =
     (Return [LUserdata (xmlSecCryptoAppKeyLoadMemory E data (length data)
                xmlSecKeyDataFormatCertPem)], [])"
  by (simp add: load_cert_def monad_defs stack_defs Let_def)

text \<open>
  C7. xmlsec answers \<^verbatim>\<open>NULL\<close> for bytes that are not a PEM certificate. \<^verbatim>\<open>load_cert\<close>
  pushes that pointer unchecked: for such bytes it returns a light userdata holding
  \<^verbatim>\<open>NULL\<close>, which is not \<^verbatim>\<open>nil\<close>, where \<^verbatim>\<open>load_key\<close> and \<^verbatim>\<open>load_cert_file\<close> test the
  pointer and return \<^verbatim>\<open>nil\<close>.
\<close>

theorem load_cert_null_handle:
  assumes "xmlSecCryptoAppKeyLoadMemory E data (length data) xmlSecKeyDataFormatCertPem = NULL"
  shows "fst (call (load_cert E) [LStr data]) = Return [LUserdata NULL] \<and>
         fst (call (load_cert E) [LStr data]) \<noteq> Return [LNil]"
  using assms by (simp add: load_cert_string)

theorem load_cert_null_handle_witness:
  "fst (call (load_cert env0) [LStr ''not a certificate'']) = Return [LUserdata NULL] \<and>
   fst (call (load_cert env0) [LStr ''not a certificate'']) \<noteq> Return [LNil]"
  using load_cert_null_handle [where E = env0 and data = "''not a certificate''"]
  by (simp add: env0_def)

lemma load_cert_file_null:
  "xmlSecCryptoAppKeyLoad E (c_str filename) xmlSecKeyDataFormatCertPem = NULL \<Longrightarrow>
   fst (call (load_cert_file E) [LStr filename]) = Return [LNil]"
  by (simp add: load_cert_file_string)

section \<open>Resolving a transform\<close>

lemma c_str_id: "CHR 0x00 \<notin> set str \<Longrightarrow> c_str str = str"
  by (auto simp: c_str_def takeWhile_eq_all_conv)

lemma find_transform_by_href_string:
  "call (find_transform_by_href E) [LStr href] =
     (Return [case map_of (xmlSecTransformIdsGet E) (c_str href) of
                None \<Rightarrow> LNil
              | Some transform_id \<Rightarrow> if transform_id = NULL then LNil else LUserdata transform_id],
      [])"
  by (simp add: find_transform_by_href_def xmlSecTransformIdListFindByHref_def monad_defs
        stack_defs Let_def split: option.splits)

lemma c_str_href_zero_byte:
  "c_str href_zero_byte = ''http://www.w3.org/2001/04/xmldsig-more#rsa-sha256''"
  by (simp add: c_str_def href_zero_byte_def)

text \<open>
  C5, as the claim states it, fails. \<^verbatim>\<open>find_transform_by_href\<close> reads its argument with
  \<^verbatim>\<open>luaL_checklstring(L, 1, NULL)\<close>, as a C string. The Lua string made of the
  rsa-sha256 URI, a zero byte and three more bytes is not in the table, and the
  function returns the transform id of rsa-sha256 for it, not \<^verbatim>\<open>nil\<close>.
\<close>

theorem find_transform_by_href_zero_byte_counterexample:
  "href_zero_byte \<notin> fst ` set (xmlSecTransformIdsGet env0) \<and>
   fst (call (find_transform_by_href env0) [LStr href_zero_byte]) = Return [LUserdata 12] \<and>
   fst (call (find_transform_by_href env0) [LStr href_zero_byte]) \<noteq> Return [LNil]"
proof -
  have "href_zero_byte \<notin> fst ` set (xmlSecTransformIdsGet env0)"
    by (simp add: env0_def href_zero_byte_def)
  moreover have "fst (call (find_transform_by_href env0) [LStr href_zero_byte]) =
      Return [LUserdata 12]"
    by (simp add: find_transform_by_href_string c_str_href_zero_byte env0_def)
  ultimately show ?thesis by simp
qed

text \<open>
  C5, amended. The table of transforms holds pairs of a URI and a transform id, none
  of them \<^verbatim>\<open>NULL\<close>. For every string, the href looked up is the string up to its first
  zero byte, which is the whole string when it has none. When that href is not in the
  table, \<^verbatim>\<open>find_transform_by_href\<close> returns \<^verbatim>\<open>nil\<close>, and it does not raise; when it is
  equal to a URI of the table, the function returns the id the table gives for it.
\<close>

theorem find_transform_by_href_c_string:
  assumes "\<forall>(uri, transform_id) \<in> set (xmlSecTransformIdsGet E). transform_id \<noteq> NULL"
  shows "(c_str href \<notin> fst ` set (xmlSecTransformIdsGet E) \<longrightarrow>
            fst (call (find_transform_by_href E) [LStr href]) = Return [LNil]) \<and>
         (\<forall>transform_id. map_of (xmlSecTransformIdsGet E) (c_str href) = Some transform_id \<longrightarrow>
            fst (call (find_transform_by_href E) [LStr href]) = Return [LUserdata transform_id]) \<and>
         (CHR 0x00 \<notin> set href \<longrightarrow> c_str href = href)"
proof (intro conjI impI allI)
  assume "c_str href \<notin> fst ` set (xmlSecTransformIdsGet E)"
  then have "map_of (xmlSecTransformIdsGet E) (c_str href) = None"
    by (simp add: map_of_eq_None_iff)
  then show "fst (call (find_transform_by_href E) [LStr href]) = Return [LNil]"
    by (simp add: find_transform_by_href_string)
next
  fix transform_id
  assume found: "map_of (xmlSecTransformIdsGet E) (c_str href) = Some transform_id"
  then have "(c_str href, transform_id) \<in> set (xmlSecTransformIdsGet E)"
    by (rule map_of_SomeD)
  with assms have "transform_id \<noteq> NULL" by blast
  with found show "fst (call (find_transform_by_href E) [LStr href]) = Return [LUserdata transform_id]"
    by (simp add: find_transform_by_href_string)
next
  assume "CHR 0x00 \<notin> set href"
  then show "c_str href = href" by (rule c_str_id)
qed

theorem find_transform_by_href_c_string_witness:
  "fst (call (find_transform_by_href env0) [LStr ''not-a-real-uri'']) = Return [LNil] \<and>
   fst (call (find_transform_by_href env0)
          [LStr ''http://www.w3.org/2001/04/xmldsig-more#rsa-sha256'']) = Return [LUserdata 12] \<and>
   c_str ''not-a-real-uri'' = ''not-a-real-uri''"
proof -
  have ids: "\<forall>(uri, transform_id) \<in> set (xmlSecTransformIdsGet env0). transform_id \<noteq> NULL"
    by (simp add: env0_def)
  from find_transform_by_href_c_string [OF ids, of "''not-a-real-uri''"]
  have absent: "fst (call (find_transform_by_href env0) [LStr ''not-a-real-uri'']) = Return [LNil]"
    and whole: "c_str ''not-a-real-uri'' = ''not-a-real-uri''"
    by (simp_all add: env0_def c_str_def)
  from find_transform_by_href_c_string
         [OF ids, of "''http://www.w3.org/2001/04/xmldsig-more#rsa-sha256''"]
  have "fst (call (find_transform_by_href env0)
          [LStr ''http://www.w3.org/2001/04/xmldsig-more#rsa-sha256'']) = Return [LUserdata 12]"
    by (simp add: env0_def c_str_def)
  with absent whole show ?thesis by simp
qed

section \<open>Verifying a signature over bytes\<close>

lemma verify_binary_code:
  "cert \<noteq> NULL \<Longrightarrow> transform_id \<noteq> NULL \<Longrightarrow>
   call (verify_binary E) [LUserdata cert, LUserdata transform_id, LStr data, LStr sig] =
     (let res = saml_verify_binary E cert transform_id data sig
      in (if res < 0 then Return [LNil, LStr ''saml verify failed'']
          else Return [LBool (res \<noteq> 1), LNil],
          [Call_saml_verify_binary cert transform_id data sig res]))"
  by (simp add: verify_binary_def monad_defs stack_defs Let_def)

text \<open>
  C2. With \<^verbatim>\<open>saml_verify_binary\<close> as the spec describes it, for every key, transform id,
  data and signature \<^verbatim>\<open>verify_binary\<close> returns exactly one of three results, and which
  one is decided by the backend alone: \<^verbatim>\<open>true, nil\<close> when the signature is valid,
  \<^verbatim>\<open>false, nil\<close> (no error) when it is invalid, and \<^verbatim>\<open>nil\<close> with the error string when
  the operation failed.
\<close>

theorem verify_binary_three_outcomes:
  assumes "cert \<noteq> NULL" and "transform_id \<noteq> NULL"
  shows "fst (call (verify_binary (E\<lparr>saml_verify_binary := saml_verify_binary_spec backend\<rparr>))
            [LUserdata cert, LUserdata transform_id, LStr data, LStr sig]) =
         (case backend cert transform_id data sig of
            Valid \<Rightarrow> Return [LBool True, LNil]
          | Invalid \<Rightarrow> Return [LBool False, LNil]
          | Fail \<Rightarrow> Return [LNil, LStr ''saml verify failed''])"
  using assms
  by (simp add: verify_binary_code saml_verify_binary_spec_def Let_def split: verdict.splits)

theorem verify_binary_three_outcomes_witness:
  "fst (call (verify_binary (env0\<lparr>saml_verify_binary := saml_verify_binary_spec backend0\<rparr>))
          [LUserdata 3, LUserdata 12, LStr ''data'', LStr ''good'']) = Return [LBool True, LNil] \<and>
   fst (call (verify_binary (env0\<lparr>saml_verify_binary := saml_verify_binary_spec backend0\<rparr>))
          [LUserdata 3, LUserdata 12, LStr ''data'', LStr ''forged'']) = Return [LBool False, LNil] \<and>
   fst (call (verify_binary (env0\<lparr>saml_verify_binary := saml_verify_binary_spec backend0\<rparr>))
          [LUserdata 3, LUserdata 12, LStr ''data'', LStr []]) =
     Return [LNil, LStr ''saml verify failed'']"
  using verify_binary_three_outcomes
          [where cert = 3 and transform_id = 12 and E = env0 and backend = backend0
             and data = "''data''" and sig = "''good''"]
        verify_binary_three_outcomes
          [where cert = 3 and transform_id = 12 and E = env0 and backend = backend0
             and data = "''data''" and sig = "''forged''"]
        verify_binary_three_outcomes
          [where cert = 3 and transform_id = 12 and E = env0 and backend = backend0
             and data = "''data''" and sig = "[]"]
  by (simp add: backend0_def)

section \<open>Verifying a document\<close>

lemma verify_doc_nil_options:
  "mngr \<noteq> NULL \<Longrightarrow> doc \<noteq> NULL \<Longrightarrow>
   call (verify_doc E) [LUserdata mngr, LUserdata doc, LNil] =
     (let res = saml_verify_doc E mngr doc None
      in (if res < 0 then Return [LNil, LStr ''saml verify failed'']
          else Return [LBool (res \<noteq> 1), LNil],
          [Call_saml_verify_doc mngr doc None res]))"
  by (simp add: verify_doc_def monad_defs stack_defs Let_def)

lemma verify_doc_no_options:
  "mngr \<noteq> NULL \<Longrightarrow> doc \<noteq> NULL \<Longrightarrow>
   call (verify_doc E) [LUserdata mngr, LUserdata doc] =
     (let res = saml_verify_doc E mngr doc None
      in (if res < 0 then Return [LNil, LStr ''saml verify failed'']
          else Return [LBool (res \<noteq> 1), LNil],
          [Call_saml_verify_doc mngr doc None res]))"
  by (simp add: verify_doc_def monad_defs stack_defs Let_def)

lemma verify_doc_id_attr:
  "mngr \<noteq> NULL \<Longrightarrow> doc \<noteq> NULL \<Longrightarrow> tbl_get t (LStr ''id_attr'') = LStr str \<Longrightarrow>
   call (verify_doc E) [LUserdata mngr, LUserdata doc, LTable t] =
     (let res = saml_verify_doc E mngr doc (Some (c_str str))
      in (if res < 0 then Return [LNil, LStr ''saml verify failed'']
          else Return [LBool (res \<noteq> 1), LNil],
          [Call_saml_verify_doc mngr doc (Some (c_str str)) res]))"
  by (simp add: verify_doc_def monad_defs stack_defs Let_def)

lemma verify_doc_table_without_id_attr:
  "mngr \<noteq> NULL \<Longrightarrow> doc \<noteq> NULL \<Longrightarrow> tbl_get t (LStr ''id_attr'') = LNil \<Longrightarrow>
   call (verify_doc E) [LUserdata mngr, LUserdata doc, LTable t] =
     (Raise (ArgError 4 ''string expected, got nil''), [])"
  by (simp add: verify_doc_def monad_defs stack_defs Let_def)

text \<open>
  C1. Let \<^verbatim>\<open>saml_verify_doc\<close> answer 1, a mismatch, for a manager and a document under
  the default ID attribute. Called without options \<^verbatim>\<open>verify_doc\<close> returns \<^verbatim>\<open>false, nil\<close>,
  the Invalid result. Called with the empty options table, which asks for the same
  default, it neither returns Invalid nor Fail: \<^verbatim>\<open>luaL_checklstring\<close> raises on the
  absent \<^verbatim>\<open>id_attr\<close>, and \<^verbatim>\<open>saml_verify_doc\<close> is not called.
\<close>

theorem verify_doc_mismatch_empty_options:
  assumes "mngr \<noteq> NULL" and "doc \<noteq> NULL" and "saml_verify_doc E mngr doc None = 1"
  shows "fst (call (verify_doc E) [LUserdata mngr, LUserdata doc, LNil]) =
           Return [LBool False, LNil] \<and>
         call (verify_doc E) [LUserdata mngr, LUserdata doc, LTable []] =
           (Raise (ArgError 4 ''string expected, got nil''), [])"
  using assms
  by (simp add: verify_doc_nil_options verify_doc_table_without_id_attr tbl_get_def)

theorem verify_doc_mismatch_empty_options_witness:
  "fst (call (verify_doc env_mismatch) [LUserdata 7, LUserdata 9, LNil]) =
     Return [LBool False, LNil] \<and>
   call (verify_doc env_mismatch) [LUserdata 7, LUserdata 9, LTable []] =
     (Raise (ArgError 4 ''string expected, got nil''), [])"
  using verify_doc_mismatch_empty_options [where E = env_mismatch and mngr = 7 and doc = 9]
  by (simp add: env_mismatch_def env0_def)

text \<open>
  C8. For every manager, every document and every options table that has no
  \<^verbatim>\<open>id_attr\<close> field, \<^verbatim>\<open>verify_doc\<close> raises the argument error of \<^verbatim>\<open>luaL_checklstring\<close> and
  makes no call: the verification does not proceed with the default ID attribute.
  (\<^verbatim>\<open>sign_get_opts\<close> tests the field for \<^verbatim>\<open>nil\<close> first; see \<open>sign_doc_empty_options\<close>.)
\<close>

theorem verify_doc_options_without_id_attr:
  assumes "mngr \<noteq> NULL" and "doc \<noteq> NULL" and "tbl_get t (LStr ''id_attr'') = LNil"
  shows "call (verify_doc E) [LUserdata mngr, LUserdata doc, LTable t] =
           (Raise (ArgError 4 ''string expected, got nil''), [])"
  using assms by (rule verify_doc_table_without_id_attr)

theorem verify_doc_options_without_id_attr_witness:
  "call (verify_doc env0) [LUserdata 7, LUserdata 9, LTable [(LStr ''other'', LBool True)]] =
     (Raise (ArgError 4 ''string expected, got nil''), [])"
  using verify_doc_options_without_id_attr
          [where E = env0 and mngr = 7 and doc = 9 and t = "[(LStr ''other'', LBool True)]"]
  by (simp add: tbl_get_def)

section \<open>Signing a document\<close>

lemma sign_doc_empty_options:
  "key \<noteq> NULL \<Longrightarrow> transform_id \<noteq> NULL \<Longrightarrow>
   call (sign_doc E) [LUserdata key, LUserdata transform_id, LUserdata doc, LTable []] =
     (let opts = \<lparr>id_attr = None, insert_after_ns = None, insert_after_el = None\<rparr>;
          res = saml_sign_doc E key transform_id doc opts
      in (Return [if res = 0 then LNil else LStr ''saml sign failed''],
          [Call_saml_sign_doc key transform_id doc opts res]))"
  by (simp add: sign_doc_def sign_get_opts_def monad_defs stack_defs Let_def tbl_get_def)

lemma sign_doc_null_key:
  "fst (call (sign_doc E) [LNil, transform_id, doc, opts]) =
     Raise (ArgError 1 ''`xmlSecKey*' expected'')"
  by (simp add: sign_doc_def monad_defs stack_defs)

text \<open>
  C10. For every key and transform id, \<^verbatim>\<open>sign_doc\<close> with \<^verbatim>\<open>nil\<close> for the document is not
  rejected: the third argument check tests \<^verbatim>\<open>key\<close> again, not \<^verbatim>\<open>doc\<close>, so the call
  reaches \<^verbatim>\<open>saml_sign_doc\<close> with a \<^verbatim>\<open>NULL\<close> document and returns what that call answers.
\<close>

theorem sign_doc_nil_document:
  assumes "key \<noteq> NULL" and "transform_id \<noteq> NULL"
  shows "call (sign_doc E) [LUserdata key, LUserdata transform_id, LNil, LNil] =
     (let opts = \<lparr>id_attr = None, insert_after_ns = None, insert_after_el = None\<rparr>;
          res = saml_sign_doc E key transform_id NULL opts
      in (Return [if res = 0 then LNil else LStr ''saml sign failed''],
          [Call_saml_sign_doc key transform_id NULL opts res]))"
  using assms by (simp add: sign_doc_def sign_get_opts_def monad_defs stack_defs Let_def)

theorem sign_doc_nil_document_witness:
  "call (sign_doc env0) [LUserdata 3, LUserdata 12, LNil, LNil] =
     (Return [LNil],
      [Call_saml_sign_doc 3 12 NULL
         \<lparr>id_attr = None, insert_after_ns = None, insert_after_el = None\<rparr> 0])"
  using sign_doc_nil_document [where E = env0 and key = 3 and transform_id = 12]
  by (simp add: env0_def)

section \<open>Signing a text\<close>

lemma sign_xml_parse_failure:
  "key \<noteq> NULL \<Longrightarrow> transform_id \<noteq> NULL \<Longrightarrow>
   xmlReadMemory E data (size_to_int (length data)) = NULL \<Longrightarrow>
   call (sign_xml E) [LUserdata key, LUserdata transform_id, LStr data, opts] =
     (Return [LNil, LStr ''unable to parse xml string''],
      [Call_xmlReadMemory data (size_to_int (length data)) NULL])"
  by (simp add: sign_xml_def monad_defs stack_defs Let_def)

lemma sign_xml_nil_options:
  "key \<noteq> NULL \<Longrightarrow> transform_id \<noteq> NULL \<Longrightarrow>
   xmlReadMemory E data (size_to_int (length data)) = doc \<Longrightarrow> doc \<noteq> NULL \<Longrightarrow>
   call (sign_xml E) [LUserdata key, LUserdata transform_id, LStr data, LNil] =
     (let opts = \<lparr>id_attr = None, insert_after_ns = None, insert_after_el = None\<rparr>;
          res = saml_sign_doc E key transform_id doc opts;
          c = [Call_xmlReadMemory data (size_to_int (length data)) doc,
               Call_saml_sign_doc key transform_id doc opts res]
      in if res = 0
         then (Return [LStr (xmlDocDumpMemory E c doc), LNil],
               c @ [Call_xmlDocDumpMemory doc, Call_xmlFreeDoc doc])
         else (Return [LNil, LStr ''saml sign failed''], c @ [Call_xmlFreeDoc doc]))"
  by (simp add: sign_xml_def sign_get_opts_def monad_defs stack_defs Let_def)

text \<open>
  C6. \<^verbatim>\<open>sign_xml\<close> parses the text before it reads the options. When the text parses
  and the options are a table whose \<^verbatim>\<open>insert_after\<close> is not a pair, \<^verbatim>\<open>sign_get_opts\<close>
  raises and the function is left by that error: the document \<^verbatim>\<open>xmlReadMemory\<close>
  returned is not passed to \<^verbatim>\<open>xmlFreeDoc\<close>. (On its two returns after the parse,
  \<open>sign_xml_nil_options\<close>, the document is freed.)
\<close>

theorem sign_xml_options_error_keeps_document:
  assumes "key \<noteq> NULL" and "transform_id \<noteq> NULL"
    and "xmlReadMemory E data (size_to_int (length data)) = doc" and "doc \<noteq> NULL"
  shows "call (sign_xml E)
           [LUserdata key, LUserdata transform_id, LStr data,
            LTable [(LStr ''insert_after'', LTable [(LNum 1, LStr ''ns'')])]] =
         (Raise (ArgError 4 ''insert_after must be a table of form {namespace, element}''),
          [Call_xmlReadMemory data (size_to_int (length data)) doc])"
  using assms
  by (simp add: sign_xml_def sign_get_opts_def monad_defs stack_defs Let_def tbl_get_def)

theorem sign_xml_options_error_keeps_document_witness:
  "call (sign_xml env_parses)
     [LUserdata 3, LUserdata 12, LStr ''<a/>'',
      LTable [(LStr ''insert_after'', LTable [(LNum 1, LStr ''ns'')])]] =
   (Raise (ArgError 4 ''insert_after must be a table of form {namespace, element}''),
    [Call_xmlReadMemory ''<a/>'' 4 9]) \<and>
   Call_xmlFreeDoc 9 \<notin> set [Call_xmlReadMemory ''<a/>'' 4 9]"
  using sign_xml_options_error_keeps_document
          [where E = env_parses and key = 3 and transform_id = 12 and data = "''<a/>''" and doc = 9]
  by (simp add: env_parses_def env0_def size_to_int_def)

section \<open>The table of attributes\<close>

lemma tbl_get_set: "tbl_get (tbl_set t k v) k' = (if k' = k then v else tbl_get t k')"
  by (simp add: tbl_get_def tbl_set_def update_conv' delete_conv')

lemma abs_index_top3: "abs_index (st @ [a, b, c]) (- 3) = Suc (length st)"
  by (simp add: abs_index_def nat_add_distrib)

lemma index2adr_top3: "index2adr (st @ [a, b, c]) (- 3) = Some a"
  by (simp add: index2adr_def abs_index_top3)

lemma settable_top3:
  "k \<noteq> LNil \<Longrightarrow>
   lua_settable (- 3) \<lparr>stack = st @ [LTable t, k, v], calls = c\<rparr> =
     (Inr (), \<lparr>stack = st @ [LTable (tbl_set t k v)], calls = c\<rparr>)"
  by (simp add: lua_settable_def index2adr_top3 abs_index_top3 Let_def nth_append)

text \<open>The inner loop fills the list on top of the stack and leaves the rest alone.\<close>

lemma attrs_values_loop_run:
  "attrs_values_loop vs j \<lparr>stack = st @ [LTable t], calls = c\<rparr> =
     (Inr (), \<lparr>stack = st @ [LTable (fill_values vs j t)], calls = c\<rparr>)"
proof (induction vs arbitrary: j t)
  case Nil
  show ?case by (simp add: ret_def)
next
  case (Cons v vs)
  show ?case
    by (cases v)
       (simp_all add: seq_def bnd_def lua_pushinteger_def lua_pushnil_def lua_pushstring_def
          push_def settable_top3 Cons.IH value_or_nil_def)
qed

lemma attrs_push_value_run:
  "attrs_push_value a \<lparr>stack = st, calls = c\<rparr> =
     (Inr (), \<lparr>stack = st @ [attr_value a], calls = c\<rparr>)"
proof -
  have "seq lua_newtable (attrs_values_loop (attr_values a) 0) \<lparr>stack = st, calls = c\<rparr> =
     (Inr (), \<lparr>stack = st @ [LTable (fill_values (attr_values a) 0 [])], calls = c\<rparr>)"
    by (simp add: seq_def bnd_def lua_newtable_def push_def attrs_values_loop_run)
  then show ?thesis
    by (simp add: attrs_push_value_def attr_value_def value_or_nil_def lua_pushnil_def
          lua_pushstring_def push_def split: option.splits)
qed

lemma attrs_loop_run:
  "attrs_loop as \<lparr>stack = st @ [LTable t], calls = c\<rparr> =
     (Inr (), \<lparr>stack = st @ [LTable (fill_attrs as t)], calls = c\<rparr>)"
proof (induction as arbitrary: t)
  case Nil
  show ?case by (simp add: ret_def)
next
  case (Cons a as)
  show ?case
  proof (cases "name a")
    case None
    then show ?thesis by (simp add: seq_def bnd_def ret_def Cons.IH)
  next
    case (Some nm)
    have "attrs_push_value a \<lparr>stack = (st @ [LTable t]) @ [LStr nm], calls = c\<rparr> =
      (Inr (), \<lparr>stack = (st @ [LTable t]) @ [LStr nm] @ [attr_value a], calls = c\<rparr>)"
      using attrs_push_value_run [of a "(st @ [LTable t]) @ [LStr nm]" c] by simp
    then show ?thesis using Some
      by (simp add: seq_def bnd_def lua_pushstring_def push_def settable_top3 Cons.IH)
  qed
qed

lemma attrs_run:
  assumes "doc \<noteq> NULL"
  shows "call (attrs E) [LUserdata doc] =
     (if fst (saml_doc_attrs E doc) < 0 then (Return [LNil], [])
      else (Return [LTable (fill_attrs (snd (saml_doc_attrs E doc)) [])], [Call_saml_free_attrs]))"
proof -
  have loop: "attrs_loop as \<lparr>stack = [LTable []], calls = []\<rparr> =
     (Inr (), \<lparr>stack = [LTable (fill_attrs as [])], calls = []\<rparr>)" for as
    using attrs_loop_run [of as "[]" "[]" "[]"] by simp
  from assms show ?thesis
    by (cases "saml_doc_attrs E doc") (simp add: attrs_def monad_defs stack_defs loop)
qed

text \<open>The list built for several values: index \<open>j + 1\<close> holds the value \<open>j\<close>, and nothing
  else is stored.\<close>

lemma fill_values_other:
  "\<forall>i<length vs. k \<noteq> LNum (int (j + i) + 1) \<Longrightarrow> tbl_get (fill_values vs j t) k = tbl_get t k"
proof (induction vs arbitrary: j t)
  case Nil
  show ?case by simp
next
  case (Cons v vs)
  have "\<forall>i<length vs. k \<noteq> LNum (int (Suc j + i) + 1)"
    using Cons.prems by (metis add_Suc_shift length_Cons not_less_eq)
  moreover have "k \<noteq> LNum (int j + 1)"
    using Cons.prems by force
  ultimately show ?case
    using Cons.IH by (simp add: tbl_get_set)
qed

lemma fill_values_nth:
  "i < length vs \<Longrightarrow>
   tbl_get (fill_values vs j t) (LNum (int (j + i) + 1)) = value_or_nil (vs ! i)"
proof (induction vs arbitrary: i j t)
  case Nil
  then show ?case by simp
next
  case (Cons v vs)
  show ?case
  proof (cases i)
    case 0
    have "tbl_get (fill_values vs (Suc j) (tbl_set t (LNum (int j + 1)) (value_or_nil v)))
            (LNum (int j + 1)) =
          tbl_get (tbl_set t (LNum (int j + 1)) (value_or_nil v)) (LNum (int j + 1))"
      by (rule fill_values_other) simp
    then show ?thesis using 0 by (simp add: tbl_get_set)
  next
    case (Suc i')
    then have "i' < length vs" using Cons.prems by simp
    from Cons.IH [OF this, of "Suc j"] show ?thesis using Suc by simp
  qed
qed

text \<open>The table of attributes: a later attribute replaces an earlier one of its name.\<close>

lemma fill_attrs_append: "fill_attrs (xs @ ys) t = fill_attrs ys (fill_attrs xs t)"
  by (induction xs arbitrary: t) simp_all

lemma fill_attrs_other:
  "\<forall>b\<in>set as. name b \<noteq> Some nm \<Longrightarrow>
   tbl_get (fill_attrs as t) (LStr nm) = tbl_get t (LStr nm)"
  by (induction as arbitrary: t) (auto simp: tbl_get_set split: option.splits)

lemma fill_attrs_last:
  assumes "name a = Some nm" and "\<forall>b\<in>set post. name b \<noteq> Some nm"
  shows "tbl_get (fill_attrs (pre @ a # post) t) (LStr nm) = attr_value a"
  using assms by (simp add: fill_attrs_append fill_attrs_other tbl_get_set)

text \<open>
  C4, as the claim states it, fails. Both attributes of this assertion have exactly
  one \<^verbatim>\<open>AttributeValue\<close> child; they share the name \<^verbatim>\<open>email\<close>, and the text of the second
  one's child is \<^verbatim>\<open>NULL\<close>. The table returned is empty: it holds a scalar string for
  neither.
\<close>

theorem attrs_one_value_counterexample:
  "saml_doc_attrs env_attrs_null 9 = (0, [attr_email, attr_email_null]) \<and>
   num_values attr_email = 1 \<and> num_values attr_email_null = 1 \<and>
   call (attrs env_attrs_null) [LUserdata 9] = (Return [LTable []], [Call_saml_free_attrs]) \<and>
   tbl_get [] (LStr ''email'') = LNil"
  by (simp add: attrs_run env_attrs_null_def env0_def attr_email_def attr_email_null_def
        num_values_def attr_value_def value_or_nil_def tbl_set_def tbl_get_def)

text \<open>
  C4, amended. When \<^verbatim>\<open>saml_doc_attrs\<close> succeeds, \<^verbatim>\<open>attrs\<close> returns a table, and for every
  attribute that has a name and is the last one of that name the table holds under
  the name: \<^verbatim>\<open>nil\<close> when the attribute has no value; for exactly one value, that string,
  or \<^verbatim>\<open>nil\<close> when the value is \<^verbatim>\<open>NULL\<close>; for two or more values a list in which index
  \<open>j + 1\<close> holds the value \<open>j\<close> of the attribute, in the order of the document, a \<^verbatim>\<open>NULL\<close>
  value being left \<^verbatim>\<open>nil\<close>, and which has no other key.
\<close>

theorem attrs_value_shape:
  assumes "doc \<noteq> NULL" and "saml_doc_attrs E doc = (rc, pre @ a # post)" and "0 \<le> rc"
    and "name a = Some nm" and "\<forall>b\<in>set post. name b \<noteq> Some nm"
  shows "\<exists>t. fst (call (attrs E) [LUserdata doc]) = Return [LTable t] \<and>
     (attr_values a = [] \<longrightarrow> tbl_get t (LStr nm) = LNil) \<and>
     (\<forall>v. attr_values a = [v] \<longrightarrow> tbl_get t (LStr nm) = value_or_nil v) \<and>
     (2 \<le> length (attr_values a) \<longrightarrow>
        (\<exists>l. tbl_get t (LStr nm) = LTable l \<and>
           (\<forall>j<length (attr_values a).
              tbl_get l (LNum (int j + 1)) = value_or_nil (attr_values a ! j)) \<and>
           (\<forall>k. (\<forall>j<length (attr_values a). k \<noteq> LNum (int j + 1)) \<longrightarrow> tbl_get l k = LNil)))"
proof -
  let ?t = "fill_attrs (pre @ a # post) []"
  let ?l = "fill_values (attr_values a) 0 []"
  have run: "fst (call (attrs E) [LUserdata doc]) = Return [LTable ?t]"
    using assms(1-3) by (simp add: attrs_run)
  have val: "tbl_get ?t (LStr nm) = attr_value a"
    using assms(4,5) by (rule fill_attrs_last)
  have zero: "attr_values a = [] \<longrightarrow> attr_value a = LNil"
    by (simp add: attr_value_def num_values_def)
  have one: "\<forall>v. attr_values a = [v] \<longrightarrow> attr_value a = value_or_nil v"
    by (simp add: attr_value_def num_values_def)
  have many: "2 \<le> length (attr_values a) \<longrightarrow> attr_value a = LTable ?l"
    by (auto simp: attr_value_def num_values_def)
  have inside: "\<forall>j<length (attr_values a).
      tbl_get ?l (LNum (int j + 1)) = value_or_nil (attr_values a ! j)"
    using fill_values_nth [of _ "attr_values a" 0 "[]"] by simp
  have outside: "\<forall>k. (\<forall>j<length (attr_values a). k \<noteq> LNum (int j + 1)) \<longrightarrow> tbl_get ?l k = LNil"
    using fill_values_other [of "attr_values a" _ 0 "[]"] by (simp add: tbl_get_def)
  show ?thesis
    using run val zero one many inside outside by auto
qed

theorem attrs_value_shape_witness:
  "\<exists>t l. fst (call (attrs env_attrs) [LUserdata 9]) = Return [LTable t] \<and>
     tbl_get t (LStr ''groups'') = LTable l \<and>
     tbl_get l (LNum 1) = LStr ''admin'' \<and> tbl_get l (LNum 2) = LStr ''staff'' \<and>
     tbl_get l (LNum 3) = LNil"
proof -
  have attrs: "saml_doc_attrs env_attrs 9 = (0, [attr_email] @ attr_groups # [attr_none])"
    by (simp add: env_attrs_def env0_def)
  have nm: "name attr_groups = Some ''groups''"
    by (simp add: attr_groups_def)
  have post: "\<forall>b\<in>set [attr_none]. name b \<noteq> Some ''groups''"
    by (simp add: attr_none_def)
  have vs: "attr_values attr_groups = [Some ''admin'', Some ''staff'']"
    by (simp add: attr_groups_def)
  from attrs_value_shape [OF _ attrs _ nm post]
  obtain t l where run: "fst (call (attrs env_attrs) [LUserdata 9]) = Return [LTable t]"
    and l: "tbl_get t (LStr ''groups'') = LTable l"
    and inside: "\<forall>j<length (attr_values attr_groups).
        tbl_get l (LNum (int j + 1)) = value_or_nil (attr_values attr_groups ! j)"
    and outside: "\<forall>k. (\<forall>j<length (attr_values attr_groups). k \<noteq> LNum (int j + 1)) \<longrightarrow>
        tbl_get l k = LNil"
    by (auto simp: vs)
  have "tbl_get l (LNum 1) = LStr ''admin''"
    using inside [rule_format, of 0] by (simp add: vs value_or_nil_def)
  moreover have "tbl_get l (LNum 2) = LStr ''staff''"
    using inside [rule_format, of 1] by (simp add: vs value_or_nil_def)
  moreover have "tbl_get l (LNum 3) = LNil"
  proof -
    have "j < length (attr_values attr_groups) \<Longrightarrow> LNum 3 \<noteq> LNum (int j + 1)" for j
      by (simp add: vs)
    with outside show ?thesis by blast
  qed
  ultimately show ?thesis using run l by auto
qed

section \<open>Creating a keys manager\<close>

text \<open>One turn of the loop: the entry is not a key, or its adoption fails, or it is
  adopted and the loop goes on.\<close>

lemma create_keys_mngr_loop_step:
  "create_keys_mngr_loop E m (i # is) \<lparr>stack = [LTable t], calls = c\<rparr> =
     (let key = key_at t i; res = xmlSecCryptoAppDefaultKeysMngrAdoptKey E c m key in
      if key = NULL then
        (Inl (ArgError 2 ''`xmlSecKey*' expected''),
         \<lparr>stack = [LTable t, tbl_get t (LNum (int i))], calls = c\<rparr>)
      else if res \<noteq> 0 then
        (Inr (Some 2),
         \<lparr>stack = [LNil, LStr ''adopt key failed''],
          calls = c @ [Call_xmlSecCryptoAppDefaultKeysMngrAdoptKey m key res,
                       Call_xmlSecKeysMngrDestroy m]\<rparr>)
      else
        create_keys_mngr_loop E m is
          \<lparr>stack = [LTable t],
           calls = c @ [Call_xmlSecCryptoAppDefaultKeysMngrAdoptKey m key 0]\<rparr>)"
  by (simp add: monad_defs stack_defs Let_def key_at_def split: lua_value.splits)

lemma create_keys_mngr_loop_result:
  "create_keys_mngr_loop E m is \<lparr>stack = [LTable t], calls = c\<rparr> = (r, s') \<Longrightarrow>
   \<exists>ks. case r of
        Inl e \<Rightarrow> calls s' = c @ adopted m ks
      | Inr None \<Rightarrow> stack s' = [LTable t] \<and> calls s' = c @ adopted m ks
      | Inr (Some n) \<Rightarrow> n = 2 \<and> stack s' = [LNil, LStr ''adopt key failed''] \<and>
          (\<exists>k res. res \<noteq> 0 \<and> calls s' = c @ adopted m ks @
             [Call_xmlSecCryptoAppDefaultKeysMngrAdoptKey m k res, Call_xmlSecKeysMngrDestroy m])"
proof (induction "is" arbitrary: c)
  case Nil
  then show ?case by (auto simp: ret_def intro: exI [of _ "[]"])
next
  case (Cons i "is")
  let ?key = "key_at t i"
  let ?res = "xmlSecCryptoAppDefaultKeysMngrAdoptKey E c m ?key"
  consider (null) "?key = NULL" | (fails) "?key \<noteq> NULL" "?res \<noteq> 0"
    | (ok) "?key \<noteq> NULL" "?res = 0"
    by blast
  then show ?case
  proof cases
    case null
    with Cons.prems [unfolded create_keys_mngr_loop_step] show ?thesis
      by (auto simp: Let_def intro: exI [of _ "[]"])
  next
    case fails
    with Cons.prems [unfolded create_keys_mngr_loop_step] show ?thesis
      by (auto simp: Let_def intro!: exI [of _ "[]"])
  next
    case ok
    with Cons.prems [unfolded create_keys_mngr_loop_step]
    have "create_keys_mngr_loop E m is
        \<lparr>stack = [LTable t],
         calls = c @ [Call_xmlSecCryptoAppDefaultKeysMngrAdoptKey m ?key 0]\<rparr> = (r, s')"
      by (simp add: Let_def)
    from Cons.IH [OF this] obtain ks where
      ks: "case r of
        Inl e \<Rightarrow> calls s' =
          (c @ [Call_xmlSecCryptoAppDefaultKeysMngrAdoptKey m ?key 0]) @ adopted m ks
      | Inr None \<Rightarrow> stack s' = [LTable t] \<and> calls s' =
          (c @ [Call_xmlSecCryptoAppDefaultKeysMngrAdoptKey m ?key 0]) @ adopted m ks
      | Inr (Some n) \<Rightarrow> n = 2 \<and> stack s' = [LNil, LStr ''adopt key failed''] \<and>
          (\<exists>k res. res \<noteq> 0 \<and> calls s' =
             (c @ [Call_xmlSecCryptoAppDefaultKeysMngrAdoptKey m ?key 0]) @ adopted m ks @
             [Call_xmlSecCryptoAppDefaultKeysMngrAdoptKey m k res, Call_xmlSecKeysMngrDestroy m])"
      by blast
    show ?thesis
      by (rule exI [of _ "?key # ks"]) (use ks in \<open>auto split: sum.splits option.splits\<close>)
  qed
qed

lemma create_keys_mngr_not_table:
  "(case args of LTable t # rest \<Rightarrow> False | _ \<Rightarrow> True) \<Longrightarrow>
   \<exists>e. call (create_keys_mngr E) args = (Raise e, [])"
  by (simp add: create_keys_mngr_def monad_defs stack_defs split: list.splits lua_value.splits)

lemma create_keys_mngr_unfold:
  "create_keys_mngr E \<lparr>stack = LTable t # rest, calls = []\<rparr> =
     (let m = xmlSecKeysMngrCreate E; init = xmlSecCryptoAppDefaultKeysMngrInit E m in
      if m = NULL then
        (Inr 2, \<lparr>stack = [LNil, LStr ''create keys manager failed''],
                 calls = [Call_xmlSecKeysMngrCreate m]\<rparr>)
      else if init < 0 then
        (Inr 2, \<lparr>stack = [LNil, LStr ''initialize keys manager failed''],
                 calls = [Call_xmlSecKeysMngrCreate m,
                          Call_xmlSecCryptoAppDefaultKeysMngrInit m init,
                          Call_xmlSecKeysMngrDestroy m]\<rparr>)
      else
        bnd (create_keys_mngr_loop E m [1 ..< border t 0 (length t) + 1]) (\<lambda>returned.
          case returned of
            Some n \<Rightarrow> ret n
          | None \<Rightarrow> seq (lua_pop 1) (seq (lua_pushlightuserdata m) (seq lua_pushnil (ret 2))))
        \<lparr>stack = [LTable t],
         calls = [Call_xmlSecKeysMngrCreate m,
                  Call_xmlSecCryptoAppDefaultKeysMngrInit m init]\<rparr>)"
  by (simp add: create_keys_mngr_def monad_defs stack_defs Let_def del: upt_Suc)

text \<open>The managers alive after the calls of a run that ends in a failed adoption.\<close>

lemma keys_mngrs_adopted:
  "foldl keys_mngrs_step [(m, l)] (adopted m ks) = [(m, l @ ks)]"
  by (induction ks arbitrary: l) simp_all

lemma keys_mngrs_after_failure:
  "m \<noteq> NULL \<Longrightarrow> res \<noteq> 0 \<Longrightarrow>
   keys_mngrs_after
     ([Call_xmlSecKeysMngrCreate m, Call_xmlSecCryptoAppDefaultKeysMngrInit m init] @
      adopted m ks @
      [Call_xmlSecCryptoAppDefaultKeysMngrAdoptKey m k res, Call_xmlSecKeysMngrDestroy m]) = []"
  by (simp add: keys_mngrs_after_def keys_mngrs_adopted)

text \<open>
  C3. Whatever \<^verbatim>\<open>create_keys_mngr\<close> is called with, if one of its calls to adopt a key
  fails, then it returns \<^verbatim>\<open>nil\<close> and the string \<^verbatim>\<open>adopt key failed\<close>, so no manager
  reaches the caller; the manager the failed adoption was for is the one the function
  created, and the last call of the function destroys it, after which no manager, and
  so no key adopted before, is left alive.
\<close>

theorem create_keys_mngr_adopt_failure:
  assumes run: "call (create_keys_mngr E) args = (out, evs)"
    and ev: "Call_xmlSecCryptoAppDefaultKeysMngrAdoptKey m k res \<in> set evs"
    and res: "res \<noteq> 0"
  shows "out = Return [LNil, LStr ''adopt key failed''] \<and>
         m = xmlSecKeysMngrCreate E \<and>
         last evs = Call_xmlSecKeysMngrDestroy m \<and>
         keys_mngrs_after evs = []"
proof -
  let ?M = "xmlSecKeysMngrCreate E"
  let ?init = "xmlSecCryptoAppDefaultKeysMngrInit E ?M"
  let ?c = "[Call_xmlSecKeysMngrCreate ?M, Call_xmlSecCryptoAppDefaultKeysMngrInit ?M ?init]"
  obtain t rest where args: "args = LTable t # rest"
  proof (cases "case args of LTable t # rest \<Rightarrow> False | _ \<Rightarrow> True")
    case True
    from create_keys_mngr_not_table [OF this, of E] run ev show ?thesis by auto
  next
    case False
    then show ?thesis using that by (auto split: list.splits lua_value.splits)
  qed
  have M: "?M \<noteq> NULL"
  proof
    assume "?M = NULL"
    with run ev show False
      by (simp add: call_def args create_keys_mngr_unfold Let_def) auto
  qed
  have init: "\<not> ?init < 0"
  proof
    assume "?init < 0"
    with run ev M show False
      by (simp add: call_def args create_keys_mngr_unfold Let_def) auto
  qed
  obtain r s' where loop: "create_keys_mngr_loop E ?M [1 ..< border t 0 (length t) + 1]
      \<lparr>stack = [LTable t], calls = ?c\<rparr> = (r, s')"
    by (cases "create_keys_mngr_loop E ?M [1 ..< border t 0 (length t) + 1]
      \<lparr>stack = [LTable t], calls = ?c\<rparr>") blast
  from create_keys_mngr_loop_result [OF loop] obtain ks where ks: "case r of
        Inl e \<Rightarrow> calls s' = ?c @ adopted ?M ks
      | Inr None \<Rightarrow> stack s' = [LTable t] \<and> calls s' = ?c @ adopted ?M ks
      | Inr (Some n) \<Rightarrow> n = 2 \<and> stack s' = [LNil, LStr ''adopt key failed''] \<and>
          (\<exists>k res. res \<noteq> 0 \<and> calls s' = ?c @ adopted ?M ks @
             [Call_xmlSecCryptoAppDefaultKeysMngrAdoptKey ?M k res,
              Call_xmlSecKeysMngrDestroy ?M])"
    by blast
  show ?thesis
  proof (cases r)
    case (Inl e)
    with run M init loop ks have "evs = ?c @ adopted ?M ks"
      by (simp add: call_def args create_keys_mngr_unfold Let_def bnd_def)
    with ev res show ?thesis by auto
  next
    case (Inr returned)
    show ?thesis
    proof (cases returned)
      case None
      with Inr run M init loop ks have "evs = ?c @ adopted ?M ks"
        by (simp add: call_def args create_keys_mngr_unfold Let_def monad_defs stack_defs)
      with ev res show ?thesis by auto
    next
      case (Some n)
      with Inr ks obtain k' res' where n: "n = 2"
        and st: "stack s' = [LNil, LStr ''adopt key failed'']"
        and res': "res' \<noteq> 0"
        and calls: "calls s' = ?c @ adopted ?M ks @
             [Call_xmlSecCryptoAppDefaultKeysMngrAdoptKey ?M k' res',
              Call_xmlSecKeysMngrDestroy ?M]"
        by auto
      from Some Inr run M init loop n st calls
      have out: "out = Return [LNil, LStr ''adopt key failed'']"
        and evs: "evs = ?c @ adopted ?M ks @
             [Call_xmlSecCryptoAppDefaultKeysMngrAdoptKey ?M k' res',
              Call_xmlSecKeysMngrDestroy ?M]"
        by (simp_all add: call_def args create_keys_mngr_unfold Let_def bnd_def ret_def)
      from ev res evs have m: "m = ?M" by auto
      have "keys_mngrs_after evs = []"
        unfolding evs using M res' by (rule keys_mngrs_after_failure)
      with out m evs show ?thesis by simp
    qed
  qed
qed

lemma create_keys_mngr_keys456:
  "call (create_keys_mngr env_adopt_fails) [keys456] =
     (Return [LNil, LStr ''adopt key failed''],
      [Call_xmlSecKeysMngrCreate 7, Call_xmlSecCryptoAppDefaultKeysMngrInit 7 0,
       Call_xmlSecCryptoAppDefaultKeysMngrAdoptKey 7 4 0,
       Call_xmlSecCryptoAppDefaultKeysMngrAdoptKey 7 5 (- 1),
       Call_xmlSecKeysMngrDestroy 7])"
  by (simp add: create_keys_mngr_def keys456_def env_adopt_fails_def env0_def monad_defs
        stack_defs tbl_get_def Let_def)

text \<open>When every adoption succeeds the manager is returned. An entry that is not a key
  is an argument error, not a failed adoption: the function is left with the manager
  and the keys adopted so far alive.\<close>

lemma create_keys_mngr_success:
  "call (create_keys_mngr env0) [keys456] =
     (Return [LUserdata 7, LNil],
      [Call_xmlSecKeysMngrCreate 7, Call_xmlSecCryptoAppDefaultKeysMngrInit 7 0,
       Call_xmlSecCryptoAppDefaultKeysMngrAdoptKey 7 4 0,
       Call_xmlSecCryptoAppDefaultKeysMngrAdoptKey 7 5 0,
       Call_xmlSecCryptoAppDefaultKeysMngrAdoptKey 7 6 0])"
  by (simp add: create_keys_mngr_def keys456_def env0_def monad_defs stack_defs tbl_get_def
        Let_def)

lemma create_keys_mngr_entry_not_a_key:
  "call (create_keys_mngr env0) [LTable [(LNum 1, LUserdata 4), (LNum 2, LStr ''pem'')]] =
     (Raise (ArgError 2 ''`xmlSecKey*' expected''),
      [Call_xmlSecKeysMngrCreate 7, Call_xmlSecCryptoAppDefaultKeysMngrInit 7 0,
       Call_xmlSecCryptoAppDefaultKeysMngrAdoptKey 7 4 0]) \<and>
   keys_mngrs_after
     [Call_xmlSecKeysMngrCreate 7, Call_xmlSecCryptoAppDefaultKeysMngrInit 7 0,
      Call_xmlSecCryptoAppDefaultKeysMngrAdoptKey 7 4 0] = [(7, [4])]"
  by (simp add: create_keys_mngr_def env0_def monad_defs stack_defs tbl_get_def Let_def
        keys_mngrs_after_def)

theorem create_keys_mngr_adopt_failure_witness:
  "fst (call (create_keys_mngr env_adopt_fails) [keys456]) =
     Return [LNil, LStr ''adopt key failed''] \<and>
   last (snd (call (create_keys_mngr env_adopt_fails) [keys456])) = Call_xmlSecKeysMngrDestroy 7 \<and>
   keys_mngrs_after (snd (call (create_keys_mngr env_adopt_fails) [keys456])) = []"
proof -
  have "Call_xmlSecCryptoAppDefaultKeysMngrAdoptKey 7 5 (- 1) \<in>
     set [Call_xmlSecKeysMngrCreate 7, Call_xmlSecCryptoAppDefaultKeysMngrInit 7 0,
       Call_xmlSecCryptoAppDefaultKeysMngrAdoptKey 7 4 0,
       Call_xmlSecCryptoAppDefaultKeysMngrAdoptKey 7 5 (- 1),
       Call_xmlSecKeysMngrDestroy 7]"
    by simp
  from create_keys_mngr_adopt_failure [OF create_keys_mngr_keys456 this]
  show ?thesis by (simp add: create_keys_mngr_keys456)
qed

end
